theory Spec2Isabelle
  imports Complex_Main
begin

section \<open>JavaScript values\<close>

text \<open>
  The error utilities take and throw values of type \<^verbatim>\<open>unknown\<close>, so the model needs the
  values of the language itself. Numbers are the reals (the finite doubles without
  rounding; NaN and the infinities are outside the model). An object carries the class it
  was built from and its own properties, the first binding of a key being the effective one.
  Three classes are told apart, as \<^verbatim>\<open>instanceof\<close> in \<^verbatim>\<open>parseError\<close> does: plain
  objects, instances of \<^verbatim>\<open>TypeError\<close>, and instances of \<^verbatim>\<open>Error\<close> that are no
  \<^verbatim>\<open>TypeError\<close>. Functions, getters and proxies are not values of the model.
\<close>

datatype js_class = PlainObject | ErrorObject | TypeErrorObject

datatype js_value =
    JUndefined
  | JNull
  | JBool bool
  | JNumber real
  | JString string
  | JArray "js_value list"
  | JObject js_class "(string \<times> js_value) list"

fun nullish :: "js_value \<Rightarrow> bool" where
  "nullish JUndefined = True"
| "nullish JNull = True"
| "nullish _ = False"

text \<open>Truthiness, as \<^verbatim>\<open>||\<close> and \<^verbatim>\<open>if (x)\<close> test it.\<close>

fun truthy :: "js_value \<Rightarrow> bool" where
  "truthy JUndefined = False"
| "truthy JNull = False"
| "truthy (JBool b) = b"
| "truthy (JNumber n) = (n \<noteq> 0)"
| "truthy (JString s) = (s \<noteq> [])"
| "truthy (JArray xs) = True"
| "truthy (JObject c fs) = True"

definition js_or :: "js_value \<Rightarrow> js_value \<Rightarrow> js_value" where
  "js_or a b = (if truthy a then a else b)"

text \<open>
  What an instance inherits: \<^verbatim>\<open>Error.prototype.message\<close> is the empty string. The members of
  \<^verbatim>\<open>Object.prototype\<close> (\<^verbatim>\<open>toString\<close>, \<^verbatim>\<open>constructor\<close>, ...) are never asked for by the
  source and are left out.
\<close>

fun inherited :: "js_class \<Rightarrow> string \<Rightarrow> js_value option" where
  "inherited PlainObject k = None"
| "inherited ErrorObject k = (if k = ''message'' then Some (JString []) else None)"
| "inherited TypeErrorObject k = (if k = ''message'' then Some (JString []) else None)"

text \<open>\<^verbatim>\<open>key in obj\<close> for an object: own or inherited.\<close>

fun has_property :: "js_value \<Rightarrow> string \<Rightarrow> bool" where
  "has_property (JObject c fs) k = (map_of fs k \<noteq> None \<or> inherited c k \<noteq> None)"
| "has_property _ k = False"

text \<open>
  \<^verbatim>\<open>v.key\<close> for a value that is neither \<^verbatim>\<open>null\<close> nor \<^verbatim>\<open>undefined\<close> (on those the read
  throws, which every caller below checks first). Primitives and arrays have none of the keys
  the source reads.
\<close>

fun get_property :: "js_value \<Rightarrow> string \<Rightarrow> js_value" where
  "get_property (JObject c fs) k =
     (case map_of fs k of
        Some v \<Rightarrow> v
      | None \<Rightarrow> (case inherited c k of Some v \<Rightarrow> v | None \<Rightarrow> JUndefined))"
| "get_property _ k = JUndefined"

fun instanceof_TypeError :: "js_value \<Rightarrow> bool" where
  "instanceof_TypeError (JObject TypeErrorObject fs) = True"
| "instanceof_TypeError _ = False"

fun instanceof_Error :: "js_value \<Rightarrow> bool" where
  "instanceof_Error (JObject ErrorObject fs) = True"
| "instanceof_Error (JObject TypeErrorObject fs) = True"
| "instanceof_Error _ = False"

text \<open>The engine's own \<^verbatim>\<open>TypeError\<close>, thrown by a read on \<^verbatim>\<open>null\<close> or a call of a non-function.\<close>

definition engine_TypeError :: "string \<Rightarrow> js_value" where
  "engine_TypeError msg = JObject TypeErrorObject [(''message'', JString msg)]"

fun starts_with :: "string \<Rightarrow> string \<Rightarrow> bool" where
  "starts_with s [] = True"
| "starts_with [] (c # cs) = False"
| "starts_with (x # xs) (c # cs) = (x = c \<and> starts_with xs cs)"

text \<open>\<^verbatim>\<open>String.prototype.includes\<close>: the search string occurs somewhere, case-sensitively.\<close>

fun string_includes :: "string \<Rightarrow> string \<Rightarrow> bool" where
  "string_includes [] t = (t = [])"
| "string_includes (x # xs) t = (starts_with (x # xs) t \<or> string_includes xs t)"

text \<open>
  The method call \<^verbatim>\<open>v.includes(t)\<close> on an arbitrary value: strings and arrays have the
  method; on \<^verbatim>\<open>null\<close> and \<^verbatim>\<open>undefined\<close> the property read throws; on every other value
  of the model \<^verbatim>\<open>v.includes\<close> is \<^verbatim>\<open>undefined\<close> and the call throws.
\<close>

fun call_includes :: "js_value \<Rightarrow> string \<Rightarrow> js_value + bool" where
  "call_includes (JString s) t = Inr (string_includes s t)"
| "call_includes (JArray xs) t = Inr (JString t \<in> set xs)"
| "call_includes JUndefined t =
     Inl (engine_TypeError ''Cannot read properties of undefined (reading 'includes')'')"
| "call_includes JNull t =
     Inl (engine_TypeError ''Cannot read properties of null (reading 'includes')'')"
| "call_includes _ t = Inl (engine_TypeError ''error.message.includes is not a function'')"

section \<open>Error normalizer (src/lib/utils/errorHandler.ts)\<close>

text \<open>The canonical error literal \<^verbatim>\<open>{ message, statusCode }\<close>.\<close>

definition api_error :: "js_value \<Rightarrow> real \<Rightarrow> js_value" where
  "api_error msg code = JObject PlainObject [(''message'', msg), (''statusCode'', JNumber code)]"

text \<open>
  \<^verbatim>\<open>isApiError\<close>: \<^verbatim>\<open>typeof error === "object" && error !== null && "message" in error &&
  "statusCode" in error\<close>. Arrays are objects too, with neither key.
\<close>

fun isApiError :: "js_value \<Rightarrow> bool" where
  "isApiError (JObject c fs) =
     (has_property (JObject c fs) ''message'' \<and> has_property (JObject c fs) ''statusCode'')"
| "isApiError _ = False"

text \<open>\<^verbatim>\<open>parseError\<close>; \<open>Inl\<close> is an exception escaping it, \<open>Inr\<close> the value it returns.\<close>

definition parseError :: "js_value \<Rightarrow> js_value + js_value" where
  "parseError error =
     (if isApiError error then Inr error
      else
        (case (if instanceof_TypeError error
               then call_includes (get_property error ''message'') ''fetch''
               else Inr False) of
           Inl exn \<Rightarrow> Inl exn
         | Inr True \<Rightarrow>
             Inr (api_error (JString ''Network error. Please check your connection.'') 0)
         | Inr False \<Rightarrow>
             if instanceof_Error error
             then Inr (api_error (get_property error ''message'') 500)
             else Inr (api_error (JString ''An unexpected error occurred'') 500)))"

text \<open>
  \<^verbatim>\<open>handleError\<close> is \<^verbatim>\<open>parseError\<close> followed by \<^verbatim>\<open>logError\<close>, which only writes to the
  console (and only in development); the console is not part of the model.
\<close>

definition handleError :: "js_value \<Rightarrow> js_value + js_value" where
  "handleError error = parseError error"

fun is_string :: "js_value \<Rightarrow> bool" where
  "is_string (JString s) = True"
| "is_string _ = False"

fun is_number :: "js_value \<Rightarrow> bool" where
  "is_number (JNumber n) = True"
| "is_number _ = False"

section \<open>Retry policy (src/lib/utils/retry.ts)\<close>

text \<open>
  The operation handed to \<^verbatim>\<open>withRetry\<close> is an effectful thunk: it takes the state of the
  world and returns the value it resolves with (\<open>Inr\<close>) or the value it throws or rejects
  with (\<open>Inl\<close>), and the new state. \<^verbatim>\<open>onRetry\<close> is a callback of the caller and may
  itself throw (\<open>Some\<close> of what it threw). Waiting lets the world move on, which the
  parameter \<open>sleep\<close> stands for.

  \<^verbatim>\<open>RetryOptions\<close> has every field optional; \<open>None\<close> is an absent key, for which the spread
  \<^verbatim>\<open>{ ...DEFAULT_RETRY_OPTIONS, ...options }\<close> keeps the default. (A key that is present
  but holds \<^verbatim>\<open>undefined\<close> is outside the model.)
\<close>

record 's retry_options =
  maxAttempts :: "real option"
  delayMs :: "real option"
  backoffMultiplier :: "real option"
  retryableStatusCodes :: "real list option"
  onRetry :: "(nat \<Rightarrow> js_value \<Rightarrow> 's \<Rightarrow> js_value option \<times> 's) option"

record 's required_retry_options =
  r_maxAttempts :: real
  r_delayMs :: real
  r_backoffMultiplier :: real
  r_retryableStatusCodes :: "real list"
  r_onRetry :: "nat \<Rightarrow> js_value \<Rightarrow> 's \<Rightarrow> js_value option \<times> 's"

definition DEFAULT_RETRY_OPTIONS :: "'s required_retry_options" where
  "DEFAULT_RETRY_OPTIONS =
     \<lparr> r_maxAttempts = 3,
       r_delayMs = 1000,
       r_backoffMultiplier = 2,
       r_retryableStatusCodes = [408, 429, 500, 502, 503, 504],
       r_onRetry = (\<lambda>attempt error s. (None, s)) \<rparr>"

definition no_options :: "'s retry_options" where
  "no_options =
     \<lparr> maxAttempts = None, delayMs = None, backoffMultiplier = None,
       retryableStatusCodes = None, onRetry = None \<rparr>"

definition spread_options ::
  "'s required_retry_options \<Rightarrow> 's retry_options \<Rightarrow> 's required_retry_options" where
  "spread_options d options =
     \<lparr> r_maxAttempts = (case maxAttempts options of Some v \<Rightarrow> v | None \<Rightarrow> r_maxAttempts d),
       r_delayMs = (case delayMs options of Some v \<Rightarrow> v | None \<Rightarrow> r_delayMs d),
       r_backoffMultiplier =
         (case backoffMultiplier options of Some v \<Rightarrow> v | None \<Rightarrow> r_backoffMultiplier d),
       r_retryableStatusCodes =
         (case retryableStatusCodes options of Some v \<Rightarrow> v | None \<Rightarrow> r_retryableStatusCodes d),
       r_onRetry = (case onRetry options of Some v \<Rightarrow> v | None \<Rightarrow> r_onRetry d) \<rparr>"

text \<open>
  \<^verbatim>\<open>isRetryable\<close>: \<^verbatim>\<open>retryableStatusCodes.includes(error.statusCode)\<close>. The cast
  \<^verbatim>\<open>error as ApiError\<close> checks nothing, so the caught value may be anything; reading
  \<^verbatim>\<open>statusCode\<close> of \<^verbatim>\<open>null\<close> or \<^verbatim>\<open>undefined\<close> throws. \<^verbatim>\<open>includes\<close> on an array of
  numbers finds only a number.
\<close>

definition isRetryable :: "js_value \<Rightarrow> real list \<Rightarrow> js_value + bool" where
  "isRetryable error codes =
     (if error = JUndefined
      then Inl (engine_TypeError ''Cannot read properties of undefined (reading 'statusCode')'')
      else if error = JNull
      then Inl (engine_TypeError ''Cannot read properties of null (reading 'statusCode')'')
      else (case get_property error ''statusCode'' of
              JNumber c \<Rightarrow> Inr (c \<in> set codes)
            | _ \<Rightarrow> Inr False))"

text \<open>
  What a run of \<^verbatim>\<open>withRetry\<close> did, in order: each invocation of the operation with what it
  gave, each call of \<^verbatim>\<open>onRetry\<close>, each wait.
\<close>

datatype 'a retry_event =
    Invoked "js_value + 'a"
  | Retried nat js_value
  | Slept real

record ('s, 'a) retry_run =
  outcome :: "js_value + 'a"
  final :: 's
  trace :: "'a retry_event list"

definition after_events ::
  "'a retry_event list \<Rightarrow> ('s, 'a) retry_run \<Rightarrow> ('s, 'a) retry_run" where
  "after_events evs run = run \<lparr> trace := evs @ trace run \<rparr>"

text \<open>
  The \<^verbatim>\<open>for\<close> loop of \<^verbatim>\<open>withRetry\<close>, entered with the loop variables \<^verbatim>\<open>attempt\<close>,
  \<^verbatim>\<open>currentDelay\<close> and \<^verbatim>\<open>lastError\<close>. Leaving the loop (by \<^verbatim>\<open>break\<close> or by its condition)
  reaches \<^verbatim>\<open>throw lastError\<close>.
\<close>

function retry_loop ::
  "('s \<Rightarrow> (js_value + 'a) \<times> 's) \<Rightarrow> (real \<Rightarrow> 's \<Rightarrow> 's) \<Rightarrow> 's required_retry_options \<Rightarrow>
   nat \<Rightarrow> real \<Rightarrow> js_value \<Rightarrow> 's \<Rightarrow> ('s, 'a) retry_run" where
  "retry_loop fn sleep opts attempt currentDelay lastError s =
     (if real attempt \<le> r_maxAttempts opts then
        (case fn s of
           (Inr v, s1) \<Rightarrow> \<lparr> outcome = Inr v, final = s1, trace = [Invoked (Inr v)] \<rparr>
         | (Inl error, s1) \<Rightarrow>
             (if real attempt = r_maxAttempts opts
              then \<lparr> outcome = Inl error, final = s1, trace = [Invoked (Inl error)] \<rparr>
              else
                (case isRetryable error (r_retryableStatusCodes opts) of
                   Inl exn \<Rightarrow> \<lparr> outcome = Inl exn, final = s1, trace = [Invoked (Inl error)] \<rparr>
                 | Inr False \<Rightarrow>
                     \<lparr> outcome = Inl error, final = s1, trace = [Invoked (Inl error)] \<rparr>
                 | Inr True \<Rightarrow>
                     (case r_onRetry opts attempt error s1 of
                        (Some exn, s2) \<Rightarrow>
                          \<lparr> outcome = Inl exn, final = s2,
                            trace = [Invoked (Inl error), Retried attempt error] \<rparr>
                      | (None, s2) \<Rightarrow>
                          after_events
                            [Invoked (Inl error), Retried attempt error, Slept currentDelay]
                            (retry_loop fn sleep opts (attempt + 1)
                               (currentDelay * r_backoffMultiplier opts) error
                               (sleep currentDelay s2))))))
      else \<lparr> outcome = Inl lastError, final = s, trace = [] \<rparr>)"
  by pat_completeness auto
termination
proof (relation "measure (\<lambda>(fn, sleep, opts, attempt, currentDelay, lastError, s).
        nat (\<lfloor>r_maxAttempts opts\<rfloor> + 1) - attempt)", goal_cases)
  case 1
  show ?case by simp
next
  case (2 fn sleep opts attempt currentDelay lastError s)
  from \<open>real attempt \<le> r_maxAttempts opts\<close>
  have "int attempt \<le> \<lfloor>r_maxAttempts opts\<rfloor>"
    by (simp add: le_floor_iff)
  then have "attempt < nat (\<lfloor>r_maxAttempts opts\<rfloor> + 1)"
    by linarith
  then show ?case by simp
qed

declare retry_loop.simps [simp del]

definition withRetry ::
  "('s \<Rightarrow> (js_value + 'a) \<times> 's) \<Rightarrow> (real \<Rightarrow> 's \<Rightarrow> 's) \<Rightarrow> 's retry_options \<Rightarrow>
   's \<Rightarrow> ('s, 'a) retry_run" where
  "withRetry fn sleep options s =
     (let opts = spread_options DEFAULT_RETRY_OPTIONS options
      in retry_loop fn sleep opts 1 (r_delayMs opts) JNull s)"

fun invocations :: "'a retry_event list \<Rightarrow> (js_value + 'a) list" where
  "invocations [] = []"
| "invocations (Invoked r # evs) = r # invocations evs"
| "invocations (ev # evs) = invocations evs"

section \<open>API client (src/lib/api/propertyService.ts)\<close>

subsection \<open>Filters and the query string\<close>

text \<open>
  A field typed \<^verbatim>\<open>T | null\<close> and optional has three states. \<^verbatim>\<open>name\<close> and \<^verbatim>\<open>address\<close> are
  typed \<^verbatim>\<open>string\<close> and optional: absent or a string. A price is a \<^verbatim>\<open>number\<close>: a finite
  one (a real here; the doubles are among them), \<^verbatim>\<open>NaN\<close> or an infinity.
\<close>

datatype 'a nullable = Undefined | Null | Value 'a

datatype js_number = Finite real | NaN | PosInfinity | NegInfinity

record property_filter =
  f_name :: "string option"
  f_address :: "string option"
  f_priceMin :: "js_number nullable"
  f_priceMax :: "js_number nullable"
  f_type :: "string nullable"
  f_active :: "bool nullable"

definition digit_char :: "nat \<Rightarrow> char" where
  "digit_char d = ''0123456789'' ! d"

fun nat_toString :: "nat \<Rightarrow> string" where
  "nat_toString n = (if n < 10 then [digit_char n] else nat_toString (n div 10) @ [digit_char (n mod 10)])"

declare nat_toString.simps [simp del]

definition integer_toString :: "int \<Rightarrow> string" where
  "integer_toString i = (if i < 0 then CHR ''-'' # nat_toString (nat (- i)) else nat_toString (nat i))"

text \<open>
  \<^verbatim>\<open>Number.prototype.toString\<close> belongs to the platform. What it prints is modelled where it
  is the decimal numeral of the number: for an integer of magnitude at most \<open>2\<^sup>5\<^sup>3\<close> (every
  such integer is a double, and its shortest digits that read back as it are its own).
  \<^verbatim>\<open>NaN\<close> and the infinities print their names. For every other finite number (a fraction, an
  integer beyond \<open>2\<^sup>5\<^sup>3\<close>, where digits are dropped, or from \<open>10\<^sup>2\<^sup>1\<close> on, where the
  exponent notation \<^verbatim>\<open>1e+21\<close> starts) the text is taken from the parameter \<open>printed\<close>,
  about which nothing is assumed.
\<close>

definition safe_integer :: "real \<Rightarrow> bool" where
  "safe_integer x \<longleftrightarrow> real_of_int \<lfloor>x\<rfloor> = x \<and> \<bar>x\<bar> \<le> 2 ^ 53"

fun number_toString :: "(real \<Rightarrow> string) \<Rightarrow> js_number \<Rightarrow> string" where
  "number_toString printed (Finite x) =
     (if safe_integer x then integer_toString \<lfloor>x\<rfloor> else printed x)"
| "number_toString printed NaN = ''NaN''"
| "number_toString printed PosInfinity = ''Infinity''"
| "number_toString printed NegInfinity = ''-Infinity''"

definition boolean_toString :: "bool \<Rightarrow> string" where
  "boolean_toString b = (if b then ''true'' else ''false'')"





text \<open>
  \<^verbatim>\<open>URLSearchParams.prototype.toString\<close> is the \<^verbatim>\<open>application/x-www-form-urlencoded\<close>
  serializer of the URL standard: names and values are percent-encoded byte by byte, except
  for the ASCII letters and digits and \<^verbatim>\<open>*-._\<close>, a space becoming \<^verbatim>\<open>+\<close>; pairs are joined
  by \<^verbatim>\<open>&\<close>. A string of the model is the UTF-8 byte sequence of the JavaScript string.
\<close>

definition urlencoded_plain :: "char \<Rightarrow> bool" where
  "urlencoded_plain c \<longleftrightarrow>
     c \<in> set ''ABCDEFGHIJKLMNOPQRSTUVWXYZabcdefghijklmnopqrstuvwxyz0123456789*-._''"

definition hex_char :: "nat \<Rightarrow> char" where
  "hex_char d = ''0123456789ABCDEF'' ! d"

definition urlencode_byte :: "char \<Rightarrow> string" where
  "urlencode_byte c =
     (if urlencoded_plain c then [c]
      else if c = CHR '' '' then ''+''
      else [CHR ''%'', hex_char (of_char c div 16), hex_char (of_char c mod 16)])"

definition urlencode :: "string \<Rightarrow> string" where
  "urlencode s = concat (map urlencode_byte s)"

fun join_with :: "string \<Rightarrow> string list \<Rightarrow> string" where
  "join_with sep [] = []"
| "join_with sep [x] = x"
| "join_with sep (x # y # ys) = x @ sep @ join_with sep (y # ys)"

definition params_toString :: "(string \<times> string) list \<Rightarrow> string" where
  "params_toString params =
     join_with ''&'' (map (\<lambda>(k, v). urlencode k @ ''='' @ urlencode v) params)"

text \<open>
  The appends of \<^verbatim>\<open>getProperties\<close>, in source order. \<^verbatim>\<open>filters?.name\<close> of an absent
  \<^verbatim>\<open>filters\<close> is \<^verbatim>\<open>undefined\<close>. \<^verbatim>\<open>name\<close>, \<^verbatim>\<open>address\<close> and \<^verbatim>\<open>type\<close> are tested for
  truthiness (\<open>truthy_text\<close>: a string that is not empty), the other three against
  \<^verbatim>\<open>null\<close> and \<^verbatim>\<open>undefined\<close> (\<open>present\<close>).
\<close>

definition present :: "'a nullable \<Rightarrow> 'a option" where
  "present v = (case v of Value x \<Rightarrow> Some x | _ \<Rightarrow> None)"

definition truthy_text :: "string option \<Rightarrow> string option" where
  "truthy_text v = (case v of Some s \<Rightarrow> (if s \<noteq> [] then Some s else None) | None \<Rightarrow> None)"

definition append_param :: "string \<Rightarrow> string option \<Rightarrow> (string \<times> string) list" where
  "append_param key v = (case v of Some s \<Rightarrow> [(key, s)] | None \<Rightarrow> [])"

definition build_params ::
  "(real \<Rightarrow> string) \<Rightarrow> property_filter option \<Rightarrow> (string \<times> string) list" where
  "build_params printed filters =
     (case filters of
        None \<Rightarrow> []
      | Some f \<Rightarrow>
          append_param ''name'' (truthy_text (f_name f))
          @ append_param ''address'' (truthy_text (f_address f))
          @ append_param ''priceMin'' (map_option (number_toString printed) (present (f_priceMin f)))
          @ append_param ''priceMax'' (map_option (number_toString printed) (present (f_priceMax f)))
          @ append_param ''type'' (truthy_text (present (f_type f)))
          @ append_param ''active'' (map_option boolean_toString (present (f_active f))))"

definition API_ENDPOINTS_properties :: string where
  "API_ENDPOINTS_properties = ''/properties''"



definition API_CONFIG_headers :: "(string \<times> string) list" where
  "API_CONFIG_headers = [(''Content-Type'', ''application/json'')]"

definition properties_endpoint :: "(real \<Rightarrow> string) \<Rightarrow> property_filter option \<Rightarrow> string" where
  "properties_endpoint printed filters =
     (let queryString = params_toString (build_params printed filters)
      in if queryString \<noteq> [] then API_ENDPOINTS_properties @ ''?'' @ queryString
         else API_ENDPOINTS_properties)"

subsection \<open>Requests\<close>

text \<open>
  The network is a parameter: \<open>fetch\<close> takes a request and the state of the world and either
  rejects (\<open>Inl\<close>) or resolves with a response. Every call of \<^verbatim>\<open>fetch\<close> is recorded in
  \<open>sent\<close>, which is how the requests an operation issues are counted. A response whose body
  is no JSON text has \<open>json_body = None\<close>: \<^verbatim>\<open>response.json()\<close> rejects on it.
\<close>

datatype request_body = JsonText js_value | FormDataFile string

record http_request =
  req_url :: string
  req_method :: "string option"
  req_headers :: "(string \<times> string) list"
  req_body :: "request_body option"

record http_response =
  status :: real
  statusText :: string
  json_body :: "js_value option"

record request_init =
  init_method :: "string option"
  init_headers :: "(string \<times> string) list"
  init_body :: "request_body option"

record 'w net =
  world :: 'w
  sent :: "http_request list"

type_synonym 'w fetch = "http_request \<Rightarrow> 'w \<Rightarrow> (js_value + http_response) \<times> 'w"

definition do_fetch :: "'w fetch \<Rightarrow> http_request \<Rightarrow> 'w net \<Rightarrow> (js_value + http_response) \<times> 'w net" where
  "do_fetch fetch req n =
     (case fetch req (world n) of
        (r, w) \<Rightarrow> (r, \<lparr> world = w, sent = sent n @ [req] \<rparr>))"

definition response_ok :: "http_response \<Rightarrow> bool" where
  "response_ok response \<longleftrightarrow> 200 \<le> status response \<and> status response \<le> 299"

definition json_SyntaxError :: js_value where
  "json_SyntaxError = JObject ErrorObject [(''message'', JString ''Unexpected end of JSON input'')]"

text \<open>\<^verbatim>\<open>await response.json()\<close>.\<close>

definition response_json :: "http_response \<Rightarrow> js_value + js_value" where
  "response_json response =
     (case json_body response of Some v \<Rightarrow> Inr v | None \<Rightarrow> Inl json_SyntaxError)"

text \<open>\<^verbatim>\<open>{ ...API_CONFIG.headers, ...options?.headers }\<close>: a later key replaces an earlier one.\<close>

definition spread_headers :: "(string \<times> string) list \<Rightarrow> (string \<times> string) list \<Rightarrow> (string \<times> string) list" where
  "spread_headers a b =
     map (\<lambda>(k, v). (k, case map_of b k of Some v' \<Rightarrow> v' | None \<Rightarrow> v)) a
     @ filter (\<lambda>(k, v). map_of a k = None) b"

text \<open>
  The part shared by \<^verbatim>\<open>request\<close> and \<^verbatim>\<open>uploadImage\<close> for a response that is not ok:
  \<^verbatim>\<open>errorData = await response.json().catch(() => ({}))\<close>, then the thrown literal.
  \<^verbatim>\<open>errorData.message\<close> on a body that is the JSON \<^verbatim>\<open>null\<close> throws.
\<close>

definition error_data :: "http_response \<Rightarrow> js_value" where
  "error_data response =
     (case response_json response of Inr v \<Rightarrow> v | Inl exn \<Rightarrow> JObject PlainObject [])"

definition request_failure :: "http_response \<Rightarrow> js_value" where
  "request_failure response =
     (let errorData = error_data response
      in if nullish errorData
         then engine_TypeError ''Cannot read properties of null (reading 'message')''
         else JObject PlainObject
                [(''message'',
                    js_or (js_or (get_property errorData ''message'') (JString (statusText response)))
                      (JString ''Request failed'')),
                 (''statusCode'', JNumber (status response)),
                 (''errors'', get_property errorData ''errors'')])"


text \<open>The \<^verbatim>\<open>catch\<close> of \<^verbatim>\<open>request\<close> and \<^verbatim>\<open>uploadImage\<close>: \<^verbatim>\<open>throw handleError(error, ...)\<close>.\<close>

definition rethrow_handled :: "js_value \<Rightarrow> js_value" where
  "rethrow_handled error = (case handleError error of Inl exn \<Rightarrow> exn | Inr e \<Rightarrow> e)"

text \<open>What \<^verbatim>\<open>request\<close> hands to \<^verbatim>\<open>fetch\<close>: the URL and \<^verbatim>\<open>{ ...options, headers }\<close>.\<close>

definition request_input :: "string \<Rightarrow> string \<Rightarrow> request_init option \<Rightarrow> http_request" where
  "request_input baseUrl endpoint options =
     (let url = baseUrl @ endpoint
      in \<lparr> req_url = url,
           req_method = (case options of Some init \<Rightarrow> init_method init | None \<Rightarrow> None),
           req_headers = spread_headers API_CONFIG_headers
                           (case options of Some init \<Rightarrow> init_headers init | None \<Rightarrow> []),
           req_body = (case options of Some init \<Rightarrow> init_body init | None \<Rightarrow> None) \<rparr>)"

definition request ::
  "'w fetch \<Rightarrow> string \<Rightarrow> string \<Rightarrow> request_init option \<Rightarrow> 'w net \<Rightarrow> (js_value + js_value) \<times> 'w net" where
  "request fetch baseUrl endpoint options n =
     (case do_fetch fetch (request_input baseUrl endpoint options) n of
        (Inl exn, n1) \<Rightarrow> (Inl (rethrow_handled exn), n1)
      | (Inr response, n1) \<Rightarrow>
          if \<not> response_ok response then (Inl (rethrow_handled (request_failure response)), n1)
          else if status response = 204 then (Inr (JObject PlainObject []), n1)
          else (case response_json response of
                  Inl exn \<Rightarrow> (Inl (rethrow_handled exn), n1)
                | Inr data \<Rightarrow> (Inr data, n1)))"

text \<open>
  While \<^verbatim>\<open>withRetry\<close> waits, the world moves on; the record of requests does not.
  \<^verbatim>\<open>onRetry\<close> of \<^verbatim>\<open>retryableRequest\<close> writes a line to the console and returns.
\<close>

definition net_sleep :: "(real \<Rightarrow> 'w \<Rightarrow> 'w) \<Rightarrow> real \<Rightarrow> 'w net \<Rightarrow> 'w net" where
  "net_sleep wsleep ms n = n \<lparr> world := wsleep ms (world n) \<rparr>"

definition retryable_options :: "'s retry_options" where
  "retryable_options =
     \<lparr> maxAttempts = Some 3, delayMs = Some 1000, backoffMultiplier = None,
       retryableStatusCodes = None,
       onRetry = Some (\<lambda>attempt error s. (None, s)) \<rparr>"

definition retryableRequest ::
  "'w fetch \<Rightarrow> (real \<Rightarrow> 'w \<Rightarrow> 'w) \<Rightarrow> string \<Rightarrow> string \<Rightarrow> request_init option \<Rightarrow> 'w net \<Rightarrow>
   (js_value + js_value) \<times> 'w net" where
  "retryableRequest fetch wsleep baseUrl endpoint options n =
     (let run = withRetry (request fetch baseUrl endpoint options) (net_sleep wsleep)
                  retryable_options n
      in (outcome run, final run))"

text \<open>
  Unwrapping: \<^verbatim>\<open>Array.isArray(response) ? response : response.data\<close> for the lists,
  \<^verbatim>\<open>"data" in response ? response.data : response\<close> for a single record. These run outside
  \<^verbatim>\<open>request\<close>, so what they throw is not normalized.
\<close>

definition unwrap_array :: "js_value \<Rightarrow> js_value + js_value" where
  "unwrap_array response =
     (case response of
        JArray xs \<Rightarrow> Inr response
      | JUndefined \<Rightarrow> Inl (engine_TypeError ''Cannot read properties of undefined (reading 'data')'')
      | JNull \<Rightarrow> Inl (engine_TypeError ''Cannot read properties of null (reading 'data')'')
      | _ \<Rightarrow> Inr (get_property response ''data''))"

definition unwrap_data :: "js_value \<Rightarrow> js_value + js_value" where
  "unwrap_data response =
     (case response of
        JObject c fs \<Rightarrow>
          if has_property response ''data'' then Inr (get_property response ''data'')
          else Inr response
      | JArray xs \<Rightarrow> Inr response
      | JNull \<Rightarrow> Inl (engine_TypeError ''Cannot use 'in' operator to search for 'data' in null'')
      | _ \<Rightarrow> Inl (engine_TypeError ''Cannot use 'in' operator to search for 'data' in a primitive''))"

definition then_unwrap ::
  "(js_value \<Rightarrow> js_value + js_value) \<Rightarrow> (js_value + js_value) \<times> 's \<Rightarrow> (js_value + js_value) \<times> 's" where
  "then_unwrap unwrap r =
     (case r of
        (Inl e, n) \<Rightarrow> (Inl e, n)
      | (Inr response, n) \<Rightarrow> (unwrap response, n))"

subsection \<open>The operations\<close>

definition getProperties ::
  "(real \<Rightarrow> string) \<Rightarrow> 'w fetch \<Rightarrow> (real \<Rightarrow> 'w \<Rightarrow> 'w) \<Rightarrow> string \<Rightarrow>
   property_filter option \<Rightarrow> 'w net \<Rightarrow> (js_value + js_value) \<times> 'w net" where
  "getProperties printed fetch wsleep baseUrl filters n =
     then_unwrap unwrap_array
       (retryableRequest fetch wsleep baseUrl (properties_endpoint printed filters) None n)"


definition api_createProperty ::
  "'w fetch \<Rightarrow> string \<Rightarrow> js_value \<Rightarrow> 'w net \<Rightarrow> (js_value + js_value) \<times> 'w net" where
  "api_createProperty fetch baseUrl property n =
     then_unwrap unwrap_data
       (request fetch baseUrl API_ENDPOINTS_properties
          (Some \<lparr> init_method = Some ''POST'', init_headers = [],
                  init_body = Some (JsonText property) \<rparr>) n)"







section \<open>Filter-sync controller (src/hooks/useProperties.ts)\<close>

record property =
  p_id :: string
  p_name :: string
  p_description :: string
  p_addressProperty :: string
  p_type :: string
  p_priceProperty :: real
  p_imageUrl :: "string option"
  p_active :: bool
  p_createdAt :: string
  p_idOwner :: "string option"

record category =
  c_id :: string
  c_name :: string
  c_color :: string

text \<open>
  The state cells of the hook, and the state of the caller, on which the callbacks
  \<^verbatim>\<open>onError\<close> and \<^verbatim>\<open>onSuccess\<close> act when they were supplied. The callbacks are taken to
  return normally.
\<close>

record 'c hook_state =
  properties :: "property list"
  categories :: "category list"
  filter_state :: property_filter
  isLoading :: bool
  isSubmitting :: bool
  caller :: 'c

record 'c use_properties_options =
  opt_debounceMs :: "nat option"
  opt_onError :: "(js_value \<Rightarrow> 'c \<Rightarrow> 'c) option"
  opt_onSuccess :: "(string \<Rightarrow> 'c \<Rightarrow> 'c) option"

definition debounceMs_of :: "'c use_properties_options \<Rightarrow> nat" where
  "debounceMs_of options = (case opt_debounceMs options of Some d \<Rightarrow> d | None \<Rightarrow> 500)"

text \<open>\<^verbatim>\<open>onError?.(apiError)\<close> and \<^verbatim>\<open>onSuccess?.(message)\<close>.\<close>

definition call_onError :: "'c use_properties_options \<Rightarrow> js_value \<Rightarrow> 'c hook_state \<Rightarrow> 'c hook_state" where
  "call_onError options apiError st =
     (case opt_onError options of
        Some f \<Rightarrow> st \<lparr> caller := f apiError (caller st) \<rparr>
      | None \<Rightarrow> st)"

definition call_onSuccess :: "'c use_properties_options \<Rightarrow> string \<Rightarrow> 'c hook_state \<Rightarrow> 'c hook_state" where
  "call_onSuccess options message st =
     (case opt_onSuccess options of
        Some f \<Rightarrow> st \<lparr> caller := f message (caller st) \<rparr>
      | None \<Rightarrow> st)"

text \<open>The calls the hook makes on \<^verbatim>\<open>propertyApi\<close>.\<close>

datatype api_call =
    GetProperties property_filter
  | GetCategories
  | CreateProperty js_value
  | UpdateProperty string js_value
  | DeleteProperty string

text \<open>
  The argument \<^verbatim>\<open>loadData\<close> builds for \<^verbatim>\<open>getProperties\<close>: \<^verbatim>\<open>x || undefined\<close> for
  \<^verbatim>\<open>name\<close>, \<^verbatim>\<open>address\<close> and \<^verbatim>\<open>type\<close>, \<^verbatim>\<open>x ?? undefined\<close> for the other three.
\<close>

definition or_undefined :: "'a option \<Rightarrow> 'a nullable" where
  "or_undefined v = (case v of Some x \<Rightarrow> Value x | None \<Rightarrow> Undefined)"

definition load_request :: "property_filter \<Rightarrow> property_filter" where
  "load_request f =
     \<lparr> f_name = truthy_text (f_name f),
       f_address = truthy_text (f_address f),
       f_priceMin = or_undefined (present (f_priceMin f)),
       f_priceMax = or_undefined (present (f_priceMax f)),
       f_type = or_undefined (truthy_text (present (f_type f))),
       f_active = or_undefined (present (f_active f)) \<rparr>"

text \<open>
  \<^verbatim>\<open>loadData\<close> is asynchronous. It reads \<^verbatim>\<open>filter\<close> and \<^verbatim>\<open>categories\<close> from the render
  that created it (\<open>seen\<close> below), and its writes land on the state current when they
  happen. Its synchronous start sets \<^verbatim>\<open>isLoading\<close> and issues the calls; the rest runs when
  \<^verbatim>\<open>Promise.all\<close> has settled. How the two calls settle is given from outside:
  \<^verbatim>\<open>Promise.all\<close> rejects with the reason of whichever rejects first.
\<close>

definition loadData_calls :: "'c hook_state \<Rightarrow> api_call list" where
  "loadData_calls seen =
     GetProperties (load_request (filter_state seen))
     # (if length (categories seen) > 0 then [] else [GetCategories])"

definition loadData_start :: "'c hook_state \<Rightarrow> 'c hook_state" where
  "loadData_start st = st \<lparr> isLoading := True \<rparr>"

record load_settlement =
  properties_result :: "js_value + property list"
  categories_result :: "js_value + category list"
  categories_first :: bool

definition promise_all ::
  "js_value + 'a \<Rightarrow> js_value + 'b \<Rightarrow> bool \<Rightarrow> js_value + ('a \<times> 'b)" where
  "promise_all p q q_first =
     (case p of
        Inr x \<Rightarrow> (case q of Inr y \<Rightarrow> Inr (x, y) | Inl e \<Rightarrow> Inl e)
      | Inl e \<Rightarrow> (case q of Inr y \<Rightarrow> Inl e | Inl e' \<Rightarrow> Inl (if q_first then e' else e)))"

definition loadData_awaited :: "'c hook_state \<Rightarrow> load_settlement \<Rightarrow> js_value + (property list \<times> category list)" where
  "loadData_awaited seen settled =
     promise_all (properties_result settled)
       (if length (categories seen) > 0 then Inr (categories seen) else categories_result settled)
       (categories_first settled)"

definition loadData_settle ::
  "'c use_properties_options \<Rightarrow> 'c hook_state \<Rightarrow> load_settlement \<Rightarrow> 'c hook_state \<Rightarrow>
   (js_value + unit) \<times> 'c hook_state" where
  "loadData_settle options seen settled st =
     (case loadData_awaited seen settled of
        Inr (propertiesData, categoriesData) \<Rightarrow>
          (let st1 = st \<lparr> properties := propertiesData \<rparr>;
               st2 = (if length (categories seen) = 0 then st1 \<lparr> categories := categoriesData \<rparr>
                      else st1)
           in (Inr (), st2 \<lparr> isLoading := False \<rparr>))
      | Inl err \<Rightarrow>
          (let st1 = call_onError options err st
           in (Inr (), st1 \<lparr> isLoading := False \<rparr>)))"

text \<open>A load with nothing happening in between; \<^verbatim>\<open>refresh\<close> returns \<^verbatim>\<open>loadData()\<close>.\<close>

definition loadData ::
  "'c use_properties_options \<Rightarrow> load_settlement \<Rightarrow> 'c hook_state \<Rightarrow> (js_value + unit) \<times> 'c hook_state" where
  "loadData options settled st = loadData_settle options st settled (loadData_start st)"

definition refresh ::
  "'c use_properties_options \<Rightarrow> load_settlement \<Rightarrow> 'c hook_state \<Rightarrow> (js_value + unit) \<times> 'c hook_state" where
  "refresh options settled st = loadData options settled st"

subsection \<open>Mutations\<close>

text \<open>
  Each mutation awaits one call of \<^verbatim>\<open>propertyApi\<close>, whose result is given from outside;
  \<^verbatim>\<open>setProperties\<close> takes an updater, so the list it changes is the current one.
\<close>

definition createProperty_settle ::
  "'c use_properties_options \<Rightarrow> js_value + property \<Rightarrow> 'c hook_state \<Rightarrow>
   (js_value + property) \<times> 'c hook_state" where
  "createProperty_settle options result st =
     (case result of
        Inr newProperty \<Rightarrow>
          (let st1 = st \<lparr> properties := newProperty # properties st \<rparr>;
               st2 = call_onSuccess options ''Property created successfully'' st1
           in (Inr newProperty, st2 \<lparr> isSubmitting := False \<rparr>))
      | Inl err \<Rightarrow>
          (let st1 = call_onError options err st
           in (Inl err, st1 \<lparr> isSubmitting := False \<rparr>)))"

definition createProperty ::
  "'c use_properties_options \<Rightarrow> js_value + property \<Rightarrow> 'c hook_state \<Rightarrow>
   (js_value + property) \<times> 'c hook_state" where
  "createProperty options result st =
     createProperty_settle options result (st \<lparr> isSubmitting := True \<rparr>)"

definition updateProperty_settle ::
  "'c use_properties_options \<Rightarrow> string \<Rightarrow> js_value + property \<Rightarrow> 'c hook_state \<Rightarrow>
   (js_value + property) \<times> 'c hook_state" where
  "updateProperty_settle options ident result st =
     (case result of
        Inr updated \<Rightarrow>
          (let st1 = st \<lparr> properties := map (\<lambda>p. if p_id p = ident then updated else p) (properties st) \<rparr>;
               st2 = call_onSuccess options ''Property updated successfully'' st1
           in (Inr updated, st2 \<lparr> isSubmitting := False \<rparr>))
      | Inl err \<Rightarrow>
          (let st1 = call_onError options err st
           in (Inl err, st1 \<lparr> isSubmitting := False \<rparr>)))"

definition updateProperty ::
  "'c use_properties_options \<Rightarrow> string \<Rightarrow> js_value + property \<Rightarrow> 'c hook_state \<Rightarrow>
   (js_value + property) \<times> 'c hook_state" where
  "updateProperty options ident result st =
     updateProperty_settle options ident result (st \<lparr> isSubmitting := True \<rparr>)"

definition deleteProperty ::
  "'c use_properties_options \<Rightarrow> string \<Rightarrow> js_value + unit \<Rightarrow> 'c hook_state \<Rightarrow>
   (js_value + unit) \<times> 'c hook_state" where
  "deleteProperty options ident result st =
     (case result of
        Inr u \<Rightarrow>
          (let st1 = st \<lparr> properties := filter (\<lambda>p. p_id p \<noteq> ident) (properties st) \<rparr>
           in (Inr (), call_onSuccess options ''Property deleted successfully'' st1))
      | Inl err \<Rightarrow> (Inl err, call_onError options err st))"

definition getPropertyById_local :: "'c hook_state \<Rightarrow> string \<Rightarrow> property option" where
  "getPropertyById_local st ident = find (\<lambda>p. p_id p = ident) (properties st)"

subsection \<open>The debounced reload\<close>

text \<open>
  The mounted hook with its one timer and a clock in milliseconds. A pending timer holds its
  deadline and the render whose \<^verbatim>\<open>loadData\<close> it will call. \<^verbatim>\<open>setFilter\<close> with a new value
  re-renders; the effect on \<^verbatim>\<open>[filter]\<close> then clears the pending timer (in its cleanup and
  again in its body) and sets a new one, \<^verbatim>\<open>debounceMs\<close> from now. When time passes a
  deadline, the timer fires and \<^verbatim>\<open>loadData\<close> starts.
\<close>

record 'c mounted =
  hook :: "'c hook_state"
  timer :: "(nat \<times> 'c hook_state) option"
  now :: nat
  api_calls :: "api_call list"

datatype action = SetFilter property_filter | Advance nat

definition mount :: "property_filter \<Rightarrow> 'c \<Rightarrow> 'c use_properties_options \<Rightarrow> 'c mounted" where
  "mount initialFilter c options =
     (let first = \<lparr> properties = [], categories = [], filter_state = initialFilter,
                     isLoading = True, isSubmitting = False, caller = c \<rparr>
      in \<lparr> hook = loadData_start first,
           timer = Some (debounceMs_of options, first),
           now = 0,
           api_calls = loadData_calls first \<rparr>)"

fun step :: "'c use_properties_options \<Rightarrow> 'c mounted \<Rightarrow> action \<Rightarrow> 'c mounted" where
  "step options m (SetFilter f) =
     (let rendered = (hook m) \<lparr> filter_state := f \<rparr>
      in m \<lparr> hook := rendered, timer := Some (now m + debounceMs_of options, rendered) \<rparr>)"
| "step options m (Advance ms) =
     (case timer m of
        None \<Rightarrow> m \<lparr> now := now m + ms \<rparr>
      | Some (deadline, seen) \<Rightarrow>
          if deadline \<le> now m + ms
          then m \<lparr> hook := loadData_start (hook m), timer := None, now := now m + ms,
                   api_calls := api_calls m @ loadData_calls seen \<rparr>
          else m \<lparr> now := now m + ms \<rparr>)"

definition run_actions :: "'c use_properties_options \<Rightarrow> action list \<Rightarrow> 'c mounted \<Rightarrow> 'c mounted" where
  "run_actions options actions m = foldl (step options) m actions"

text \<open>
  A burst: a first change, then further changes, each after a gap measured from the change
  before it.
\<close>

fun burst :: "property_filter \<Rightarrow> (nat \<times> property_filter) list \<Rightarrow> action list" where
  "burst f [] = [SetFilter f]"
| "burst f ((gap, g) # rest) = SetFilter f # Advance gap # burst g rest"

fun reload_calls :: "api_call list \<Rightarrow> property_filter list" where
  "reload_calls [] = []"
| "reload_calls (GetProperties f # cs) = f # reload_calls cs"
| "reload_calls (c # cs) = reload_calls cs"

section \<open>Properties of the error normalizer\<close>

text \<open>
  C2, as stated, fails: an object that has both properties is returned as it is, whatever
  the properties hold. Here \<^verbatim>\<open>{ message: 42, statusCode: "500" }\<close> comes back unchanged,
  its \<^verbatim>\<open>message\<close> no string and its \<^verbatim>\<open>statusCode\<close> no number.
\<close>

theorem parseError_untyped_counterexample:
  "parseError (JObject PlainObject [(''message'', JNumber 42), (''statusCode'', JString ''500'')])
     = Inr (JObject PlainObject [(''message'', JNumber 42), (''statusCode'', JString ''500'')])
   \<and> \<not> is_string (get_property
           (JObject PlainObject [(''message'', JNumber 42), (''statusCode'', JString ''500'')])
           ''message'')
   \<and> \<not> is_number (get_property
           (JObject PlainObject [(''message'', JNumber 42), (''statusCode'', JString ''500'')])
           ''statusCode'')"
  by (simp add: parseError_def)

text \<open>
  C2, amended: an input that has both a \<^verbatim>\<open>message\<close> and a \<^verbatim>\<open>statusCode\<close> property is
  returned as it is, whatever the two hold. For every input that, when it has both
  properties, holds a string and a number there, and that, when it is an \<^verbatim>\<open>Error\<close>, has a
  string for its message, \<^verbatim>\<open>parseError\<close> does not throw and returns a value whose
  \<^verbatim>\<open>message\<close> is a string and whose \<^verbatim>\<open>statusCode\<close> is a number.
\<close>

theorem parseError_typed:
  "(isApiError raw \<longrightarrow> parseError raw = Inr raw)
   \<and> ((isApiError raw \<longrightarrow>
          is_string (get_property raw ''message'') \<and> is_number (get_property raw ''statusCode''))
        \<and> (instanceof_Error raw \<longrightarrow> is_string (get_property raw ''message''))
      \<longrightarrow> (\<exists>r. parseError raw = Inr r \<and> is_string (get_property r ''message'')
                \<and> is_number (get_property r ''statusCode'')))"
proof (intro conjI impI)
  assume "isApiError raw"
  then show "parseError raw = Inr raw" by (simp add: parseError_def)
next
  assume hyps: "(isApiError raw \<longrightarrow>
          is_string (get_property raw ''message'') \<and> is_number (get_property raw ''statusCode''))
        \<and> (instanceof_Error raw \<longrightarrow> is_string (get_property raw ''message''))"
  show "\<exists>r. parseError raw = Inr r \<and> is_string (get_property r ''message'')
                \<and> is_number (get_property r ''statusCode'')"
  proof (cases "isApiError raw")
    case True
    with hyps show ?thesis by (simp add: parseError_def)
  next
    case False
    from hyps have msg: "instanceof_Error raw \<longrightarrow> is_string (get_property raw ''message'')"
      by simp
    have "\<exists>m c. parseError raw = Inr (api_error (JString m) c)"
    proof (cases raw)
      case (JObject c fs)
      show ?thesis
      proof (cases c)
        case PlainObject
        with JObject False show ?thesis by (auto simp: parseError_def)
      next
        case ErrorObject
        with JObject msg obtain m where m: "get_property raw ''message'' = JString m"
          by (cases "get_property raw ''message''") (auto split: option.splits)
        with JObject ErrorObject False show ?thesis
          by (auto simp: parseError_def simp del: get_property.simps)
      next
        case TypeErrorObject
        with JObject msg obtain m where m: "get_property raw ''message'' = JString m"
          by (cases "get_property raw ''message''") (auto split: option.splits)
        with JObject TypeErrorObject False show ?thesis
          by (auto simp: parseError_def simp del: get_property.simps split: bool.splits)
      qed
    qed (auto simp: parseError_def)
    then obtain m c where "parseError raw = Inr (api_error (JString m) c)" by blast
    then show ?thesis by (simp add: api_error_def)
  qed
qed

theorem parseError_typed_witness:
  "parseError (JObject PlainObject [(''message'', JNull), (''statusCode'', JBool True)])
     = Inr (JObject PlainObject [(''message'', JNull), (''statusCode'', JBool True)])
   \<and> parseError (JObject ErrorObject [(''message'', JString ''Invalid JSON'')])
     = Inr (api_error (JString ''Invalid JSON'') 500)"
  using parseError_typed [of "JObject PlainObject [(''message'', JNull), (''statusCode'', JBool True)]"]
        parseError_typed [of "JObject ErrorObject [(''message'', JString ''Invalid JSON'')]"]
  by (simp add: parseError_def api_error_def)

text \<open>
  C6, as stated, fails: the second test of \<^verbatim>\<open>parseError\<close> takes only a \<^verbatim>\<open>TypeError\<close>
  whose message contains \<^verbatim>\<open>fetch\<close>. A plain \<^verbatim>\<open>Error\<close> saying \<^verbatim>\<open>Network error\<close> (the
  rejection the repository's test of network errors uses) or \<^verbatim>\<open>Failed to fetch\<close>, and a
  \<^verbatim>\<open>TypeError\<close> saying \<^verbatim>\<open>Load failed\<close>, all get their own message and status 500.
\<close>

theorem parseError_network_failure_counterexample:
  "parseError (JObject ErrorObject [(''message'', JString ''Network error'')])
     = Inr (api_error (JString ''Network error'') 500)
   \<and> parseError (JObject ErrorObject [(''message'', JString ''Failed to fetch'')])
     = Inr (api_error (JString ''Failed to fetch'') 500)
   \<and> parseError (JObject TypeErrorObject [(''message'', JString ''Load failed'')])
     = Inr (api_error (JString ''Load failed'') 500)"
  by (simp add: parseError_def)

text \<open>
  C6, amended: for every \<^verbatim>\<open>Error\<close> (a \<^verbatim>\<open>TypeError\<close> included) that has no
  \<^verbatim>\<open>statusCode\<close> property (so the first rule does not take it) and whose message is a
  string, \<^verbatim>\<open>parseError\<close> returns the network error with status 0 exactly when the input
  is a \<^verbatim>\<open>TypeError\<close> and its message contains \<^verbatim>\<open>fetch\<close> (in lower case); in every other
  case it returns the input's own message with status 500.
\<close>

theorem parseError_network_failure:
  assumes "instanceof_Error raw"
      and "\<not> has_property raw ''statusCode''"
      and "get_property raw ''message'' = JString m"
  shows "parseError raw
           = Inr (if instanceof_TypeError raw \<and> string_includes m ''fetch''
                  then api_error (JString ''Network error. Please check your connection.'') 0
                  else api_error (JString m) 500)"
proof -
  from assms(1) obtain c fs where raw: "raw = JObject c fs" "c \<noteq> PlainObject"
    by (cases raw rule: instanceof_Error.cases) auto
  then show ?thesis
    using assms by (cases c) (simp_all add: parseError_def del: get_property.simps)
qed

theorem parseError_network_failure_witness:
  "parseError (JObject TypeErrorObject [(''message'', JString ''Failed to fetch'')])
     = Inr (api_error (JString ''Network error. Please check your connection.'') 0)"
  using parseError_network_failure
          [of "JObject TypeErrorObject [(''message'', JString ''Failed to fetch'')]"
              "''Failed to fetch''"]
  by simp

section \<open>Properties of the retry policy\<close>

lemma invocations_append: "invocations (xs @ ys) = invocations xs @ invocations ys"
  by (induction xs rule: invocations.induct) simp_all



text \<open>The branches of one round of the loop.\<close>

lemma retry_loop_exhausted:
  "\<not> real attempt \<le> r_maxAttempts opts \<Longrightarrow>
   retry_loop fn sleep opts attempt d le s = \<lparr> outcome = Inl le, final = s, trace = [] \<rparr>"
  by (subst retry_loop.simps) simp

lemma retry_loop_success:
  "real attempt \<le> r_maxAttempts opts \<Longrightarrow> fn s = (Inr v, s1) \<Longrightarrow>
   retry_loop fn sleep opts attempt d le s =
     \<lparr> outcome = Inr v, final = s1, trace = [Invoked (Inr v)] \<rparr>"
  by (subst retry_loop.simps) simp


lemma retry_loop_not_retryable:
  "real attempt \<le> r_maxAttempts opts \<Longrightarrow> fn s = (Inl e, s1) \<Longrightarrow>
   isRetryable e (r_retryableStatusCodes opts) = Inr False \<Longrightarrow>
   retry_loop fn sleep opts attempt d le s =
     \<lparr> outcome = Inl e, final = s1, trace = [Invoked (Inl e)] \<rparr>"
  by (subst retry_loop.simps) simp








text \<open>
  C7: when there is a first invocation (\<^verbatim>\<open>maxAttempts\<close> is at least 1) and it fails with an
  error that \<^verbatim>\<open>isRetryable\<close> rejects, its \<^verbatim>\<open>statusCode\<close> not being among the retryable
  codes, the run consists of that one invocation: \<^verbatim>\<open>withRetry\<close> rejects with that error,
  and there is no wait and no call of \<^verbatim>\<open>onRetry\<close>.
\<close>

theorem withRetry_not_retryable:
  "1 \<le> r_maxAttempts (spread_options DEFAULT_RETRY_OPTIONS options) \<Longrightarrow>
   fn s = (Inl e, s1) \<Longrightarrow>
   isRetryable e (r_retryableStatusCodes (spread_options DEFAULT_RETRY_OPTIONS options)) = Inr False \<Longrightarrow>
   withRetry fn sleep options s = \<lparr> outcome = Inl e, final = s1, trace = [Invoked (Inl e)] \<rparr>"
  unfolding withRetry_def Let_def
  by (rule retry_loop_not_retryable) simp_all

theorem withRetry_not_retryable_witness:
  "withRetry (\<lambda>n. (Inl (api_error (JString ''Bad request'') 400) :: js_value + unit, Suc n))
      (\<lambda>ms n. n) no_options (0::nat)
   = \<lparr> outcome = Inl (api_error (JString ''Bad request'') 400), final = 1,
       trace = [Invoked (Inl (api_error (JString ''Bad request'') 400))] \<rparr>"
  using withRetry_not_retryable [of no_options
        "\<lambda>n. (Inl (api_error (JString ''Bad request'') 400) :: js_value + unit, Suc n)"
        "0::nat" "api_error (JString ''Bad request'') 400" 1 "\<lambda>ms n. n"]
  by (simp add: spread_options_def DEFAULT_RETRY_OPTIONS_def no_options_def api_error_def
        isRetryable_def)

text \<open>
  C10: with \<^verbatim>\<open>maxAttempts\<close> below 1 the loop body never runs: the operation is not invoked,
  nothing else happens, and \<^verbatim>\<open>throw lastError\<close> rejects with the initial \<^verbatim>\<open>null\<close>, which
  is no ApiError.
\<close>

theorem withRetry_no_attempts:
  "r_maxAttempts (spread_options DEFAULT_RETRY_OPTIONS options) < 1 \<Longrightarrow>
   withRetry fn sleep options s = \<lparr> outcome = Inl JNull, final = s, trace = [] \<rparr>
   \<and> \<not> isApiError JNull"
  unfolding withRetry_def Let_def
  by (simp add: retry_loop_exhausted)

theorem withRetry_no_attempts_witness:
  "withRetry (\<lambda>n. (Inr () :: js_value + unit, Suc n)) (\<lambda>ms n. n)
       (no_options \<lparr> maxAttempts := Some 0 \<rparr>) (0::nat)
     = \<lparr> outcome = Inl JNull, final = 0, trace = [] \<rparr>
   \<and> \<not> isApiError JNull"
  using withRetry_no_attempts [of "no_options \<lparr> maxAttempts := Some 0 \<rparr>"
        "\<lambda>n. (Inr () :: js_value + unit, Suc n)" "\<lambda>ms n. n" "0::nat"]
  by (simp add: spread_options_def DEFAULT_RETRY_OPTIONS_def no_options_def)

section \<open>Properties of the API client\<close>








lemma retryable_spread [simp]:
  "r_maxAttempts (spread_options DEFAULT_RETRY_OPTIONS retryable_options) = 3"
  "r_retryableStatusCodes (spread_options DEFAULT_RETRY_OPTIONS retryable_options)
     = [408, 429, 500, 502, 503, 504]"
  "r_onRetry (spread_options DEFAULT_RETRY_OPTIONS retryable_options) a e t = (None, t)"
  by (simp_all add: spread_options_def DEFAULT_RETRY_OPTIONS_def retryable_options_def)







subsection \<open>The query string\<close>
















section \<open>Properties of the filter-sync controller\<close>

lemma run_actions_Cons: "run_actions options (a # as) m = run_actions options as (step options m a)"
  by (simp add: run_actions_def)

lemma run_actions_append:
  "run_actions options (as @ bs) m = run_actions options bs (run_actions options as m)"
  by (simp add: run_actions_def)

text \<open>
  After a burst whose gaps are all shorter than the quiet period, no load has started, the
  filter is the last one set, and the one pending timer belongs to the render of that filter.
\<close>

lemma run_burst:
  assumes "\<forall>(gap, g) \<in> set rest. gap < debounceMs_of options"
  shows "\<exists>t. run_actions options (burst f rest) m =
           m \<lparr> hook := (hook m) \<lparr> filter_state := last (f # map snd rest) \<rparr>,
               timer := Some (t + debounceMs_of options,
                              (hook m) \<lparr> filter_state := last (f # map snd rest) \<rparr>),
               now := t \<rparr>"
  using assms
proof (induction rest arbitrary: f m)
  case Nil
  show ?case
    by (rule exI[of _ "now m"]) (simp add: run_actions_def Let_def)
next
  case (Cons p rest)
  obtain gap g where p: "p = (gap, g)" by (cases p)
  with Cons.prems have gap: "gap < debounceMs_of options"
    and rest: "\<forall>(gap, g) \<in> set rest. gap < debounceMs_of options" by auto
  let ?m1 = "step options (step options m (SetFilter f)) (Advance gap)"
  have m1: "?m1 = m \<lparr> hook := (hook m) \<lparr> filter_state := f \<rparr>,
                      timer := Some (now m + debounceMs_of options, (hook m) \<lparr> filter_state := f \<rparr>),
                      now := now m + gap \<rparr>"
    using gap by (simp add: Let_def)
  have unfold: "run_actions options (burst f ((gap, g) # rest)) m
                  = run_actions options (burst g rest) ?m1"
    by (simp only: burst.simps run_actions_Cons)
  from Cons.IH[OF rest, of g ?m1] obtain t where
    "run_actions options (burst g rest) ?m1 =
       ?m1 \<lparr> hook := (hook ?m1) \<lparr> filter_state := last (g # map snd rest) \<rparr>,
             timer := Some (t + debounceMs_of options,
                            (hook ?m1) \<lparr> filter_state := last (g # map snd rest) \<rparr>),
             now := t \<rparr>" by blast
  then have "run_actions options (burst f (p # rest)) m =
           m \<lparr> hook := (hook m) \<lparr> filter_state := last (f # map snd (p # rest)) \<rparr>,
               timer := Some (t + debounceMs_of options,
                              (hook m) \<lparr> filter_state := last (f # map snd (p # rest)) \<rparr>),
               now := t \<rparr>"
    unfolding p unfold m1 by simp
  then show ?case by blast
qed

text \<open>
  C3: a burst of filter changes, each less than \<^verbatim>\<open>debounceMs\<close> after the one before, followed
  by a quiet period of at least \<^verbatim>\<open>debounceMs\<close>, starts exactly one load. It calls
  \<^verbatim>\<open>getProperties\<close> once, with the last filter of the burst (as \<^verbatim>\<open>loadData\<close> passes it on),
  and \<^verbatim>\<open>getCategories\<close> only if no categories were loaded yet. With the default 500 ms,
  \<^verbatim>\<open>{ name: "A" }\<close> and then \<^verbatim>\<open>{ name: "AB" }\<close> 499 ms later give the one call for
  \<^verbatim>\<open>{ name: "AB" }\<close>.
\<close>

theorem debounced_reload:
  assumes "\<forall>(gap, g) \<in> set rest. gap < debounceMs_of options"
      and "debounceMs_of options \<le> quiet"
  shows "api_calls (run_actions options (burst f rest @ [Advance quiet]) m)
           = api_calls m @ loadData_calls ((hook m) \<lparr> filter_state := last (f # map snd rest) \<rparr>)
         \<and> reload_calls (loadData_calls ((hook m) \<lparr> filter_state := last (f # map snd rest) \<rparr>))
           = [load_request (last (f # map snd rest))]"
proof -
  from run_burst[OF assms(1), of f m] obtain t where
    "run_actions options (burst f rest) m =
           m \<lparr> hook := (hook m) \<lparr> filter_state := last (f # map snd rest) \<rparr>,
               timer := Some (t + debounceMs_of options,
                              (hook m) \<lparr> filter_state := last (f # map snd rest) \<rparr>),
               now := t \<rparr>" by blast
  with assms(2) show ?thesis
    by (simp add: run_actions_append run_actions_def loadData_calls_def)
qed


theorem debounced_reload_witness:
  "api_calls (run_actions
      \<lparr> opt_debounceMs = None, opt_onError = None, opt_onSuccess = None \<rparr>
      (burst \<lparr> f_name = Some ''A'', f_address = None, f_priceMin = Undefined,
               f_priceMax = Undefined, f_type = Undefined, f_active = Undefined \<rparr>
             [(499, \<lparr> f_name = Some ''AB'', f_address = None, f_priceMin = Undefined,
                      f_priceMax = Undefined, f_type = Undefined, f_active = Undefined \<rparr>)]
       @ [Advance 500])
      \<lparr> hook = \<lparr> properties = [],
                  categories = [\<lparr> c_id = ''1'', c_name = ''House'', c_color = ''#3B82F6'' \<rparr>],
                  filter_state = \<lparr> f_name = None, f_address = None, f_priceMin = Undefined,
                                   f_priceMax = Undefined, f_type = Undefined, f_active = Undefined \<rparr>,
                  isLoading = False, isSubmitting = False, caller = () \<rparr>,
        timer = None, now = 1000, api_calls = [] \<rparr>)
   = [GetProperties \<lparr> f_name = Some ''AB'', f_address = None, f_priceMin = Undefined,
                       f_priceMax = Undefined, f_type = Undefined, f_active = Undefined \<rparr>]"
  using debounced_reload [of
      "[(499, \<lparr> f_name = Some ''AB'', f_address = None, f_priceMin = Undefined,
                      f_priceMax = Undefined, f_type = Undefined, f_active = Undefined \<rparr>)]"
      "\<lparr> opt_debounceMs = None, opt_onError = None, opt_onSuccess = None \<rparr>"
      500
      "\<lparr> f_name = Some ''A'', f_address = None, f_priceMin = Undefined,
               f_priceMax = Undefined, f_type = Undefined, f_active = Undefined \<rparr>"
      "\<lparr> hook = \<lparr> properties = [],
                  categories = [\<lparr> c_id = ''1'', c_name = ''House'', c_color = ''#3B82F6'' \<rparr>],
                  filter_state = \<lparr> f_name = None, f_address = None, f_priceMin = Undefined,
                                   f_priceMax = Undefined, f_type = Undefined, f_active = Undefined \<rparr>,
                  isLoading = False, isSubmitting = False, caller = () \<rparr>,
        timer = None, now = 1000, api_calls = [] \<rparr>"]
  by (simp add: debounceMs_of_def loadData_calls_def load_request_def truthy_text_def
        present_def or_undefined_def)

text \<open>
  A failed load: when the awaited \<^verbatim>\<open>Promise.all\<close> rejects, whichever render started the
  load (the initial one, a debounced one or \<^verbatim>\<open>refresh\<close>) and whatever the state has become
  meanwhile, \<^verbatim>\<open>properties\<close> and \<^verbatim>\<open>categories\<close> stay as they are, \<^verbatim>\<open>onError\<close>, if supplied,
  is called with the error as it came, \<^verbatim>\<open>isLoading\<close> is cleared, and the promise of
  \<^verbatim>\<open>loadData\<close> resolves.
\<close>

lemma load_failure_absorbed:
  assumes "loadData_awaited seen settled = Inl err"
  shows "fst (loadData_settle options seen settled st) = Inr ()
       \<and> properties (snd (loadData_settle options seen settled st)) = properties st
       \<and> categories (snd (loadData_settle options seen settled st)) = categories st
       \<and> isLoading (snd (loadData_settle options seen settled st)) = False
       \<and> caller (snd (loadData_settle options seen settled st))
           = (case opt_onError options of Some f \<Rightarrow> f err (caller st) | None \<Rightarrow> caller st)"
  using assms
  by (simp add: loadData_settle_def call_onError_def Let_def split: option.splits)

text \<open>
  A failed mutation: \<^verbatim>\<open>properties\<close> stays as it is, \<^verbatim>\<open>onError\<close>, if supplied, is called
  with the error as it came, and the mutation rejects with the same error.
  \<^verbatim>\<open>createProperty\<close> and \<^verbatim>\<open>updateProperty\<close> end with \<^verbatim>\<open>isSubmitting\<close> cleared, whether
  the call resolved or rejected.
\<close>

lemma mutation_failure:
  "fst (createProperty_settle options (Inl err) st) = Inl err
   \<and> properties (snd (createProperty_settle options (Inl err) st)) = properties st
   \<and> caller (snd (createProperty_settle options (Inl err) st))
       = (case opt_onError options of Some f \<Rightarrow> f err (caller st) | None \<Rightarrow> caller st)
   \<and> isSubmitting (snd (createProperty_settle options result st)) = False
   \<and> isSubmitting (snd (createProperty options result st)) = False
   \<and> fst (updateProperty_settle options ident (Inl err) st) = Inl err
   \<and> properties (snd (updateProperty_settle options ident (Inl err) st)) = properties st
   \<and> caller (snd (updateProperty_settle options ident (Inl err) st))
       = (case opt_onError options of Some f \<Rightarrow> f err (caller st) | None \<Rightarrow> caller st)
   \<and> isSubmitting (snd (updateProperty_settle options ident result st)) = False
   \<and> isSubmitting (snd (updateProperty options ident result st)) = False
   \<and> fst (deleteProperty options ident (Inl err) st) = Inl err
   \<and> properties (snd (deleteProperty options ident (Inl err) st)) = properties st
   \<and> caller (snd (deleteProperty options ident (Inl err) st))
       = (case opt_onError options of Some f \<Rightarrow> f err (caller st) | None \<Rightarrow> caller st)"
  by (simp add: createProperty_def createProperty_settle_def updateProperty_def
        updateProperty_settle_def deleteProperty_def call_onError_def call_onSuccess_def Let_def
      split: option.splits sum.splits)

subsection \<open>Which errors reach the callbacks\<close>

text \<open>
  Whatever \<^verbatim>\<open>parseError\<close> returns has the two properties of an ApiError, and so has every
  value \<^verbatim>\<open>request\<close> rejects with, as long as \<^verbatim>\<open>fetch\<close> itself rejects only with values
  \<^verbatim>\<open>parseError\<close> accepts: every failure inside the \<^verbatim>\<open>try\<close> of \<^verbatim>\<open>request\<close> goes through
  \<^verbatim>\<open>handleError\<close>.
\<close>

lemma parseError_shape: "parseError x = Inr e \<Longrightarrow> isApiError e"
  by (cases "isApiError x")
     (auto simp: parseError_def api_error_def split: if_splits sum.splits bool.splits)

lemma request_failure_shape: "isApiError (rethrow_handled (request_failure response))"
  by (cases "nullish (error_data response)")
     (simp_all add: request_failure_def rethrow_handled_def handleError_def parseError_def
        engine_TypeError_def api_error_def Let_def)

lemma request_rejection_normalized:
  assumes "\<And>req w x w'. fetch req w = (Inl x, w') \<Longrightarrow> \<exists>e. parseError x = Inr e"
      and "request fetch baseUrl endpoint options n = (Inl e, n')"
  shows "isApiError e"
proof -
  obtain r w where f: "fetch (request_input baseUrl endpoint options) (world n) = (r, w)"
    by (cases "fetch (request_input baseUrl endpoint options) (world n)")
  show ?thesis
  proof (cases r)
    case (Inl x)
    with assms(1) f obtain e' where p: "parseError x = Inr e'" by blast
    with f Inl assms(2) have "e = e'"
      by (simp add: request_def do_fetch_def rethrow_handled_def handleError_def)
    with p show ?thesis by (simp add: parseError_shape)
  next
    case (Inr response)
    have syn: "isApiError (rethrow_handled json_SyntaxError)"
      by (simp add: rethrow_handled_def handleError_def parseError_def json_SyntaxError_def
            api_error_def)
    from f Inr assms(2) request_failure_shape[of response] syn show ?thesis
      by (auto simp: request_def do_fetch_def response_json_def
               split: if_splits option.splits)
  qed
qed

text \<open>
  C8: the error a failed load hands to \<^verbatim>\<open>onError\<close> is not always a normalized one. When
  \<^verbatim>\<open>GET /properties\<close> is answered with status 200 and the JSON body \<^verbatim>\<open>null\<close>, \<^verbatim>\<open>request\<close>
  resolves with \<^verbatim>\<open>null\<close>; \<^verbatim>\<open>getProperties\<close> unwraps the response after \<^verbatim>\<open>request\<close> has
  returned, outside its \<^verbatim>\<open>try\<close>, and \<^verbatim>\<open>response.data\<close> throws the engine's \<^verbatim>\<open>TypeError\<close>.
  That value has no \<^verbatim>\<open>statusCode\<close> and never passes \<^verbatim>\<open>handleError\<close>; \<^verbatim>\<open>loadData\<close> catches
  it and calls \<^verbatim>\<open>onError\<close> with it as it is (here \<^verbatim>\<open>onError\<close> keeps a list of what it was
  given). The state is left alone, the promise resolves and \<^verbatim>\<open>isLoading\<close> is cleared, as
  the claim says.
\<close>

theorem load_failure_raw_error:
  "getProperties (\<lambda>x. [])
      (\<lambda>req w. (Inr \<lparr> status = 200, statusText = ''OK'', json_body = Some JNull \<rparr>, w))
      (\<lambda>ms w. w) ''http://localhost:5000/api'' None \<lparr> world = (), sent = [] \<rparr>
     = (Inl (engine_TypeError ''Cannot read properties of null (reading 'data')''),
        \<lparr> world = (), sent = [request_input ''http://localhost:5000/api'' ''/properties'' None] \<rparr>)
   \<and> \<not> isApiError (engine_TypeError ''Cannot read properties of null (reading 'data')'')
   \<and> refresh
        \<lparr> opt_debounceMs = None, opt_onError = Some (\<lambda>e log. e # log), opt_onSuccess = None \<rparr>
        \<lparr> properties_result =
            Inl (engine_TypeError ''Cannot read properties of null (reading 'data')''),
          categories_result = Inr [], categories_first = False \<rparr>
        \<lparr> properties = [],
          categories = [\<lparr> c_id = ''1'', c_name = ''House'', c_color = ''#3B82F6'' \<rparr>],
          filter_state = \<lparr> f_name = None, f_address = None, f_priceMin = Undefined,
                           f_priceMax = Undefined, f_type = Undefined, f_active = Undefined \<rparr>,
          isLoading = False, isSubmitting = False, caller = [] \<rparr>
     = (Inr (),
        \<lparr> properties = [],
          categories = [\<lparr> c_id = ''1'', c_name = ''House'', c_color = ''#3B82F6'' \<rparr>],
          filter_state = \<lparr> f_name = None, f_address = None, f_priceMin = Undefined,
                           f_priceMax = Undefined, f_type = Undefined, f_active = Undefined \<rparr>,
          isLoading = False, isSubmitting = False,
          caller = [engine_TypeError ''Cannot read properties of null (reading 'data')''] \<rparr>)"
proof (intro conjI)
  let ?fetch = "\<lambda>(req :: http_request) (w :: unit).
       (Inr \<lparr> status = 200, statusText = ''OK'', json_body = Some JNull \<rparr>
          :: js_value + http_response, w)"
  let ?n = "\<lparr> world = (), sent = [] \<rparr> :: unit net"
  let ?req = "request_input ''http://localhost:5000/api'' ''/properties'' None"
  have req: "request ?fetch ''http://localhost:5000/api'' ''/properties'' None ?n
               = (Inr JNull, \<lparr> world = (), sent = [?req] \<rparr>)"
    by (simp add: request_def do_fetch_def response_ok_def response_json_def)
  let ?opts = "spread_options DEFAULT_RETRY_OPTIONS retryable_options
                 :: unit net required_retry_options"
  have "retry_loop (request ?fetch ''http://localhost:5000/api'' ''/properties'' None)
          (net_sleep (\<lambda>ms w. w)) ?opts 1 (r_delayMs ?opts) JNull ?n
        = \<lparr> outcome = Inr JNull, final = \<lparr> world = (), sent = [?req] \<rparr>,
            trace = [Invoked (Inr JNull)] \<rparr>"
    by (rule retry_loop_success) (simp_all add: req)
  then have "retryableRequest ?fetch (\<lambda>ms w. w) ''http://localhost:5000/api'' ''/properties'' None ?n
               = (Inr JNull, \<lparr> world = (), sent = [?req] \<rparr>)"
    by (simp add: retryableRequest_def withRetry_def Let_def)
  then show "getProperties (\<lambda>x. []) ?fetch (\<lambda>ms w. w) ''http://localhost:5000/api'' None ?n
     = (Inl (engine_TypeError ''Cannot read properties of null (reading 'data')''),
        \<lparr> world = (), sent = [?req] \<rparr>)"
    by (simp add: getProperties_def properties_endpoint_def build_params_def params_toString_def
          API_ENDPOINTS_properties_def then_unwrap_def unwrap_array_def)
  show "\<not> isApiError (engine_TypeError ''Cannot read properties of null (reading 'data')'')"
    by (simp add: engine_TypeError_def)
  show "refresh
        \<lparr> opt_debounceMs = None, opt_onError = Some (\<lambda>e log. e # log), opt_onSuccess = None \<rparr>
        \<lparr> properties_result =
            Inl (engine_TypeError ''Cannot read properties of null (reading 'data')''),
          categories_result = Inr [], categories_first = False \<rparr>
        \<lparr> properties = [],
          categories = [\<lparr> c_id = ''1'', c_name = ''House'', c_color = ''#3B82F6'' \<rparr>],
          filter_state = \<lparr> f_name = None, f_address = None, f_priceMin = Undefined,
                           f_priceMax = Undefined, f_type = Undefined, f_active = Undefined \<rparr>,
          isLoading = False, isSubmitting = False, caller = [] \<rparr>
     = (Inr (),
        \<lparr> properties = [],
          categories = [\<lparr> c_id = ''1'', c_name = ''House'', c_color = ''#3B82F6'' \<rparr>],
          filter_state = \<lparr> f_name = None, f_address = None, f_priceMin = Undefined,
                           f_priceMax = Undefined, f_type = Undefined, f_active = Undefined \<rparr>,
          isLoading = False, isSubmitting = False,
          caller = [engine_TypeError ''Cannot read properties of null (reading 'data')''] \<rparr>)"
    by (simp add: refresh_def loadData_def loadData_start_def loadData_awaited_def promise_all_def
          loadData_settle_def call_onError_def)
qed

text \<open>
  C9: the error a failed mutation hands to \<^verbatim>\<open>onError\<close> and re-throws is not always a
  normalized one. When \<^verbatim>\<open>POST /properties\<close> is answered with status 201 and the JSON body
  \<^verbatim>\<open>null\<close>, \<^verbatim>\<open>request\<close> resolves with \<^verbatim>\<open>null\<close>; \<^verbatim>\<open>createProperty\<close> of the API client tests
  \<^verbatim>\<open>"data" in response\<close> after \<^verbatim>\<open>request\<close> has returned, outside its \<^verbatim>\<open>try\<close>, and the test
  throws the engine's \<^verbatim>\<open>TypeError\<close>. The hook calls \<^verbatim>\<open>onError\<close> with that value, which has
  no \<^verbatim>\<open>statusCode\<close>, and rejects with it. The list is left alone and \<^verbatim>\<open>isSubmitting\<close> is
  cleared, as the claim says.
\<close>

theorem mutation_failure_raw_error:
  "api_createProperty
      (\<lambda>req w. (Inr \<lparr> status = 201, statusText = ''Created'', json_body = Some JNull \<rparr>, w))
      ''http://localhost:5000/api'' (JObject PlainObject [(''name'', JString ''X'')])
      \<lparr> world = (), sent = [] \<rparr>
     = (Inl (engine_TypeError ''Cannot use 'in' operator to search for 'data' in null''),
        \<lparr> world = (),
          sent = [request_input ''http://localhost:5000/api'' ''/properties''
                    (Some \<lparr> init_method = Some ''POST'', init_headers = [],
                            init_body = Some (JsonText (JObject PlainObject [(''name'', JString ''X'')])) \<rparr>)] \<rparr>)
   \<and> \<not> isApiError (engine_TypeError ''Cannot use 'in' operator to search for 'data' in null'')
   \<and> createProperty
        \<lparr> opt_debounceMs = None, opt_onError = Some (\<lambda>e log. e # log), opt_onSuccess = None \<rparr>
        (Inl (engine_TypeError ''Cannot use 'in' operator to search for 'data' in null''))
        \<lparr> properties = [], categories = [],
          filter_state = \<lparr> f_name = None, f_address = None, f_priceMin = Undefined,
                           f_priceMax = Undefined, f_type = Undefined, f_active = Undefined \<rparr>,
          isLoading = False, isSubmitting = False, caller = [] \<rparr>
     = (Inl (engine_TypeError ''Cannot use 'in' operator to search for 'data' in null''),
        \<lparr> properties = [], categories = [],
          filter_state = \<lparr> f_name = None, f_address = None, f_priceMin = Undefined,
                           f_priceMax = Undefined, f_type = Undefined, f_active = Undefined \<rparr>,
          isLoading = False, isSubmitting = False,
          caller = [engine_TypeError ''Cannot use 'in' operator to search for 'data' in null''] \<rparr>)"
  by (simp add: api_createProperty_def request_def do_fetch_def response_ok_def response_json_def
        then_unwrap_def unwrap_data_def API_ENDPOINTS_properties_def engine_TypeError_def
        createProperty_def createProperty_settle_def call_onError_def)


end
